theory Spec2Isabelle
  imports Complex_Main
begin

section \<open>Required services (services/classification/emergency_classifier.py)\<close>

text \<open>
  \<^verbatim>\<open>get_required_services\<close> returns a Python dict from service name to bool. The dict is
  a map \<open>string \<rightharpoonup> bool\<close>; the assignments \<^verbatim>\<open>services["fire"] = True\<close> are map updates, in
  the order of the source. The confidence is a Python float that the function only compares
  with the literal 0.8; it is a \<open>real\<close> here (a NaN, for which every comparison is false, is
  outside this type).
\<close>

type_synonym services = "string \<rightharpoonup> bool"

definition get_required_services :: "string \<Rightarrow> real \<Rightarrow> services" where
  "get_required_services emergency_type confidence =
    (let services = [''fire'' \<mapsto> False, ''medical'' \<mapsto> False,
                     ''police'' \<mapsto> False, ''rescue'' \<mapsto> False];
         services =
           (if emergency_type = ''FIRE'' then services(''fire'' \<mapsto> True)
            else if emergency_type = ''MEDICAL'' then services(''medical'' \<mapsto> True)
            else if emergency_type = ''CRIME'' then services(''police'' \<mapsto> True)
            else if emergency_type = ''NATURAL_DISASTER''
              then services(''rescue'' \<mapsto> True, ''fire'' \<mapsto> True, ''medical'' \<mapsto> True)
            else if emergency_type = ''TRAFFIC''
              then services(''police'' \<mapsto> True, ''medical'' \<mapsto> True)
            else services);
         services =
           (if confidence > 0.8 then
              (if emergency_type = ''FIRE''
                 then services(''rescue'' \<mapsto> True, ''medical'' \<mapsto> True)
               else if emergency_type = ''MEDICAL'' then services(''rescue'' \<mapsto> True)
               else if emergency_type = ''CRIME'' then services(''medical'' \<mapsto> True)
               else services)
            else services)
     in services)"

subsection \<open>The rule table as the specification words it\<close>

text \<open>
  The specification's wording of the resolver, kept apart from the code's definition above:
  a base table from type to a set of services, an escalation table that applies when the
  confidence exceeds 0.8, and the result as the fixed-key boolean map of their union.
\<close>

definition spec_base_table :: "string \<Rightarrow> string set" where
  "spec_base_table t =
    (if t = ''FIRE'' then {''fire''}
     else if t = ''MEDICAL'' then {''medical''}
     else if t = ''CRIME'' then {''police''}
     else if t = ''NATURAL_DISASTER'' then {''rescue'', ''fire'', ''medical''}
     else if t = ''TRAFFIC'' then {''police'', ''medical''}
     else {})"

definition spec_escalation :: "string \<Rightarrow> string set" where
  "spec_escalation t =
    (if t = ''FIRE'' then {''rescue'', ''medical''}
     else if t = ''MEDICAL'' then {''rescue''}
     else if t = ''CRIME'' then {''medical''}
     else {})"

definition spec_resolver :: "string \<Rightarrow> real \<Rightarrow> services" where
  "spec_resolver t c =
    (\<lambda>k. if k \<in> {''fire'', ''medical'', ''police'', ''rescue''}
         then Some (k \<in> spec_base_table t \<union> (if c > 0.8 then spec_escalation t else {}))
         else None)"

section \<open>Context enrichment (services/data_collection/apify_service.py)\<close>

text \<open>
  The values that travel between the stages are Python dicts, lists, strings, numbers and
  \<^verbatim>\<open>None\<close>: JSON values. An object is an association list in insertion order.
\<close>

datatype json =
    JNull
  | JBool bool
  | JNum real
  | JStr string
  | JList "json list"
  | JObj "(string \<times> json) list"

text \<open>
  \<^verbatim>\<open>d[k]\<close>: the value under the key, or \<open>None\<close> where Python raises (KeyError on a dict
  without the key, TypeError on a value that is not a dict).
\<close>

definition getitem :: "json \<Rightarrow> string \<Rightarrow> json option" where
  "getitem d k = (case d of JObj kvs \<Rightarrow> map_of kvs k | _ \<Rightarrow> None)"

record location =
  loc_lat :: real
  loc_lon :: real

text \<open>
  The Apify client is external: \<^verbatim>\<open>self.client.actor(name).call(run_input=...)\<close> is a
  function of the actor's name and the run input, giving \<open>Inr run\<close> or \<open>Inl message\<close> where
  the call raises. The methods below are the private ones of \<^verbatim>\<open>ApifyDataCollector\<close>; the
  leading underscore of their names is written \<open>u_\<close>.
\<close>

type_synonym apify_client = "string \<Rightarrow> json \<Rightarrow> string + json"

definition weather_default :: json where
  "weather_default =
    JObj [(''temperature'', JNull), (''conditions'', JStr ''unknown''),
          (''wind_speed'', JNull), (''visibility'', JNull)]"

definition u_get_weather_data :: "apify_client \<Rightarrow> location \<Rightarrow> json" where
  "u_get_weather_data client location =
    (case client ''apify/weather''
            (JObj [(''lat'', JNum (loc_lat location)), (''lon'', JNum (loc_lon location))]) of
       Inl e \<Rightarrow> weather_default
     | Inr run \<Rightarrow>
        (case getitem run ''data'' of
           None \<Rightarrow> weather_default
         | Some data \<Rightarrow>
            (case getitem data ''temperature'' of None \<Rightarrow> weather_default | Some temperature \<Rightarrow>
            (case getitem data ''conditions'' of None \<Rightarrow> weather_default | Some conditions \<Rightarrow>
            (case getitem data ''windSpeed'' of None \<Rightarrow> weather_default | Some wind_speed \<Rightarrow>
            (case getitem data ''visibility'' of None \<Rightarrow> weather_default | Some visibility \<Rightarrow>
               JObj [(''temperature'', temperature), (''conditions'', conditions),
                     (''wind_speed'', wind_speed), (''visibility'', visibility)]))))))"

definition traffic_default :: json where
  "traffic_default =
    JObj [(''congestion_level'', JStr ''unknown''), (''average_speed'', JNull),
          (''incidents'', JList [])]"

definition u_get_traffic_data :: "apify_client \<Rightarrow> location \<Rightarrow> json" where
  "u_get_traffic_data client location =
    (case client ''apify/traffic''
            (JObj [(''lat'', JNum (loc_lat location)), (''lon'', JNum (loc_lon location)),
                   (''radius'', JNum 2000)]) of
       Inl e \<Rightarrow> traffic_default
     | Inr run \<Rightarrow>
        (case getitem run ''data'' of
           None \<Rightarrow> traffic_default
         | Some data \<Rightarrow>
            (case getitem data ''congestionLevel'' of None \<Rightarrow> traffic_default | Some congestion_level \<Rightarrow>
            (case getitem data ''averageSpeed'' of None \<Rightarrow> traffic_default | Some average_speed \<Rightarrow>
            (case getitem data ''incidents'' of None \<Rightarrow> traffic_default | Some incidents \<Rightarrow>
               JObj [(''congestion_level'', congestion_level),
                     (''average_speed'', average_speed), (''incidents'', incidents)])))))"

text \<open>
  \<^verbatim>\<open>_get_hospitals\<close>, \<^verbatim>\<open>_get_fire_stations\<close> and \<^verbatim>\<open>_get_police_stations\<close> differ in the
  actor's name only: each returns \<^verbatim>\<open>run["data"]\<close>, or the empty list where the call or the
  lookup raises.
\<close>

definition facility_query :: "string \<Rightarrow> apify_client \<Rightarrow> location \<Rightarrow> json" where
  "facility_query actor client location =
    (case client actor
            (JObj [(''lat'', JNum (loc_lat location)), (''lon'', JNum (loc_lon location)),
                   (''radius'', JNum 5000)]) of
       Inl e \<Rightarrow> JList []
     | Inr run \<Rightarrow> (case getitem run ''data'' of None \<Rightarrow> JList [] | Some data \<Rightarrow> data))"

definition u_get_hospitals :: "apify_client \<Rightarrow> location \<Rightarrow> json" where
  "u_get_hospitals = facility_query ''apify/hospitals''"

definition u_get_fire_stations :: "apify_client \<Rightarrow> location \<Rightarrow> json" where
  "u_get_fire_stations = facility_query ''apify/fire-stations''"

definition u_get_police_stations :: "apify_client \<Rightarrow> location \<Rightarrow> json" where
  "u_get_police_stations = facility_query ''apify/police-stations''"

text \<open>
  \<^verbatim>\<open>_get_facilities_data\<close> returns a dict with at most one key. Its own handler
  (\<^verbatim>\<open>except Exception: return {}\<close>) has nothing to catch: the three queries return a value on
  every path.
\<close>

definition u_get_facilities_data ::
  "apify_client \<Rightarrow> location \<Rightarrow> string \<Rightarrow> (string \<times> json) list" where
  "u_get_facilities_data client location emergency_type =
    (if emergency_type = ''MEDICAL'' then [(''hospitals'', u_get_hospitals client location)]
     else if emergency_type = ''FIRE''
       then [(''fire_stations'', u_get_fire_stations client location)]
     else if emergency_type = ''POLICE''
       then [(''police_stations'', u_get_police_stations client location)]
     else [])"

text \<open>
  \<^verbatim>\<open>get_emergency_context\<close> gathers the three sub-queries and merges them into one dict:
  \<^verbatim>\<open>{"weather": weather, "traffic": traffic, **facilities}\<close>. The three tasks share no
  state, so their order does not matter. The result is \<open>Inr\<close>; \<open>Inl message\<close> would be the
  \<^verbatim>\<open>raise Exception("Failed to get emergency context: ...")\<close> of its handler.
\<close>

definition get_emergency_context :: "apify_client \<Rightarrow> location \<Rightarrow> string \<Rightarrow> string + json" where
  "get_emergency_context client location emergency_type =
    (let weather = u_get_weather_data client location;
         traffic = u_get_traffic_data client location;
         facilities = u_get_facilities_data client location emergency_type
     in Inr (JObj ([(''weather'', weather), (''traffic'', traffic)] @ facilities)))"

section \<open>Speech, translation and classification services\<close>

text \<open>
  Strings are Python \<^verbatim>\<open>str\<close> values restricted to ASCII, audio is a list of byte values.
  A service method that raises \<^verbatim>\<open>Exception(message)\<close> returns \<open>Inl message\<close>. The fields of
  the records that stand for the services' result dicts carry an initial, since field names
  are global.
\<close>

type_synonym bytes = "nat list"

record transcription =
  t_text :: string
  t_language :: string
  t_duration :: real

text \<open>
  \<^verbatim>\<open>SpeechService.transcribe\<close> as the coordinator constructs the service
  (\<^verbatim>\<open>SpeechService()\<close>, so \<^verbatim>\<open>test_mode=True\<close>): the mock transcription, for every audio.
\<close>

definition SpeechService_transcribe_test_mode :: "bytes \<Rightarrow> string + transcription" where
  "SpeechService_transcribe_test_mode audio_data =
    Inr \<lparr>t_text = ''Help! There is a medical emergency at Central Park. Someone has collapsed and is not breathing.'',
         t_language = ''en'', t_duration = 5\<rparr>"

record translate_request =
  parent :: string
  contents :: "string list"
  target_language_code :: string
  source_language_code :: "string option"

record google_translation =
  translated_text :: string
  detected_language_code :: string

text \<open>
  The Google client is external: \<^verbatim>\<open>self.client.translate_text(request=request)\<close> gives the
  list \<^verbatim>\<open>response.translations\<close>, or raises.
\<close>

type_synonym translate_client = "translate_request \<Rightarrow> string + google_translation list"

record translation =
  tl_translated_text :: string
  tl_detected_language :: string
  tl_source_language :: string
  tl_target_language :: string

record language_result =
  l_language :: string
  l_confidence :: real

definition TranslationService_translate ::
  "translate_client \<Rightarrow> string \<Rightarrow> string \<Rightarrow> string \<Rightarrow> string option \<Rightarrow> string + translation" where
  "TranslationService_translate client project_parent text target_language source_language =
    (let source = (case source_language of
                     Some s \<Rightarrow> if s \<noteq> [] then Some s else None
                   | None \<Rightarrow> None);
         request = \<lparr>parent = project_parent, contents = [text],
                    target_language_code = target_language, source_language_code = source\<rparr>
     in case client request of
          Inl e \<Rightarrow> Inl (''Translation failed: '' @ e)
        | Inr translations \<Rightarrow>
           (case translations of
              [] \<Rightarrow> Inl (''Translation failed: '' @ ''list index out of range'')
            | translation # rest \<Rightarrow>
               Inr \<lparr>tl_translated_text = translated_text translation,
                    tl_detected_language = detected_language_code translation,
                    tl_source_language =
                      (case source of Some s \<Rightarrow> s
                       | None \<Rightarrow> detected_language_code translation),
                    tl_target_language = target_language\<rparr>))"

definition TranslationService_detect_language ::
  "translate_client \<Rightarrow> string \<Rightarrow> string \<Rightarrow> string + language_result" where
  "TranslationService_detect_language client project_parent text =
    (let request = \<lparr>parent = project_parent, contents = [text],
                    target_language_code = ''en'', source_language_code = None\<rparr>
     in case client request of
          Inl e \<Rightarrow> Inl (''Language detection failed: '' @ e)
        | Inr translations \<Rightarrow>
           (case translations of
              [] \<Rightarrow> Inl (''Language detection failed: '' @ ''list index out of range'')
            | translation # rest \<Rightarrow>
               Inr \<lparr>l_language = detected_language_code translation, l_confidence = 1\<rparr>))"

text \<open>\<^verbatim>\<open>str.lower()\<close> on ASCII.\<close>

definition lower_char :: "char \<Rightarrow> char" where
  "lower_char c =
    (case map_of (zip ''ABCDEFGHIJKLMNOPQRSTUVWXYZ'' ''abcdefghijklmnopqrstuvwxyz'') c of
       Some l \<Rightarrow> l
     | None \<Rightarrow> c)"

definition lower :: "string \<Rightarrow> string" where
  "lower s = map lower_char s"

definition is_translation_needed :: "string \<Rightarrow> bool" where
  "is_translation_needed detected_language = (lower detected_language \<noteq> ''en'')"

record classification =
  c_type :: string
  c_confidence :: real
  c_priority :: string

text \<open>\<^verbatim>\<open>EmergencyClassifier.classify\<close>: the source returns this mock for every text.\<close>

definition EmergencyClassifier_classify :: "string \<Rightarrow> string + classification" where
  "EmergencyClassifier_classify text =
    Inr \<lparr>c_type = ''FIRE'', c_confidence = 0.95, c_priority = ''HIGH''\<rparr>"

section \<open>The coordinator (services/emergency_coordinator.py)\<close>

text \<open>
  The coordinator holds its collaborators as attributes and reaches the outside world only
  through their methods: \<^verbatim>\<open>self.speech_service.transcribe\<close>,
  \<^verbatim>\<open>self.translation_service.detect_language\<close> and \<^verbatim>\<open>translate\<close>,
  \<^verbatim>\<open>self.emergency_classifier.classify\<close>, and the Apify client of \<^verbatim>\<open>self.data_collector\<close>.
  A coordinator is the record of these methods, so that the theorems hold for every
  behaviour of the providers; \<open>EmergencyCoordinator\<close> is the instance the source builds.
\<close>

record coordinator =
  speech_transcribe :: "bytes \<Rightarrow> string + transcription"
  detect_language :: "string \<Rightarrow> string + language_result"
  translate :: "string \<Rightarrow> string + translation"
  classify :: "string \<Rightarrow> string + classification"
  data_collector_client :: apify_client

definition EmergencyCoordinator :: "translate_client \<Rightarrow> string \<Rightarrow> apify_client \<Rightarrow> coordinator" where
  "EmergencyCoordinator google project_parent apify =
    \<lparr>speech_transcribe = SpeechService_transcribe_test_mode,
     detect_language = TranslationService_detect_language google project_parent,
     translate = (\<lambda>text. TranslationService_translate google project_parent text ''en'' None),
     classify = EmergencyClassifier_classify,
     data_collector_client = apify\<rparr>"

text \<open>
  The record \<^verbatim>\<open>process_emergency\<close> returns: \<^verbatim>\<open>{"type", "priority", "details":
  {"original_text", "location", "confidence", "required_services", "context"}}\<close>. These
  are all its keys.
\<close>

record details =
  original_text :: string
  d_location :: "location option"
  d_confidence :: real
  required_services :: services
  d_context :: "json option"

record response =
  r_type :: string
  r_priority :: string
  r_details :: details

text \<open>
  Exceptions: \<^verbatim>\<open>Exception(message)\<close>, FastAPI's \<^verbatim>\<open>HTTPException(status_code, detail)\<close>,
  and \<open>StatementError\<close> for what \<^verbatim>\<open>db.commit()\<close> raises when a value does not fit the type of
  its column. A detail is a text, or \<^verbatim>\<open>str(e)\<close> of a caught exception, kept as that
  exception.
\<close>

datatype exn =
    Exception string
  | HTTPException nat detail
  | StatementError
and detail =
    Text string
  | Str exn

text \<open>Python's truth value of an optional string or bytes: not \<^verbatim>\<open>None\<close> and not empty.\<close>

definition truthy :: "'a list option \<Rightarrow> bool" where
  "truthy x = (case x of None \<Rightarrow> False | Some v \<Rightarrow> v \<noteq> [])"

text \<open>
  The body of the \<^verbatim>\<open>try\<close> block of \<^verbatim>\<open>process_emergency\<close>; \<open>Inl message\<close> is an exception
  raised inside it.
\<close>

definition process_emergency_try ::
  "coordinator \<Rightarrow> string option \<Rightarrow> bytes option \<Rightarrow> location option \<Rightarrow> string + response" where
  "process_emergency_try self text audio location =
    (case (case audio of
             Some a \<Rightarrow>
               if a \<noteq> [] \<and> \<not> truthy text
               then (case speech_transcribe self a of
                       Inl e \<Rightarrow> Inl e
                     | Inr transcription_result \<Rightarrow> Inr (Some (t_text transcription_result)))
               else Inr text
           | None \<Rightarrow> Inr text) of
       Inl e \<Rightarrow> Inl e
     | Inr None \<Rightarrow> Inl ''No text input provided''
     | Inr (Some text) \<Rightarrow>
        if text = [] then Inl ''No text input provided''
        else
          (case detect_language self text of
             Inl e \<Rightarrow> Inl e
           | Inr lang_result \<Rightarrow>
              (case (if is_translation_needed (l_language lang_result)
                     then (case translate self text of
                             Inl e \<Rightarrow> Inl e
                           | Inr translation \<Rightarrow> Inr (tl_translated_text translation))
                     else Inr text) of
                 Inl e \<Rightarrow> Inl e
               | Inr text \<Rightarrow>
                  (case classify self text of
                     Inl e \<Rightarrow> Inl e
                   | Inr classification \<Rightarrow>
                      (let required_services =
                             get_required_services (c_type classification)
                               (c_confidence classification)
                       in case (case location of
                                  None \<Rightarrow> Inr None
                                | Some loc \<Rightarrow>
                                   (case get_emergency_context (data_collector_client self)
                                           loc (c_type classification) of
                                      Inl e \<Rightarrow> Inl e
                                    | Inr c \<Rightarrow> Inr (Some c))) of
                            Inl e \<Rightarrow> Inl e
                          | Inr context \<Rightarrow>
                             Inr \<lparr>r_type = c_type classification,
                                  r_priority = c_priority classification,
                                  r_details =
                                    \<lparr>original_text = text,
                                     d_location = location,
                                     d_confidence = c_confidence classification,
                                     required_services = required_services,
                                     d_context = context\<rparr>\<rparr>)))))"

definition process_emergency ::
  "coordinator \<Rightarrow> string option \<Rightarrow> bytes option \<Rightarrow> location option \<Rightarrow> exn + response" where
  "process_emergency self text audio location =
    (case process_emergency_try self text audio location of
       Inl e \<Rightarrow> Inl (Exception (''Failed to process emergency: '' @ e))
     | Inr r \<Rightarrow> Inr r)"

section \<open>The persisted records (database/models.py)\<close>

text \<open>
  Identifiers are numbers, a point in time is a number of microseconds (the resolution of
  \<^verbatim>\<open>datetime\<close>). The store holds the four tables the endpoints touch and what the process
  has printed. The fields of the rows other than \<open>emergency\<close> carry an initial, as do
  the \<^verbatim>\<open>id\<close> and \<^verbatim>\<open>notes\<close> of an emergency.
\<close>

type_synonym uuid = nat
type_synonym time = int

datatype EmergencyStatus = ACTIVE | RESOLVED | CANCELLED

record emergency =
  e_id :: uuid
  emergency_type :: string
  priority_level :: string
  status :: EmergencyStatus
  location_lat :: "real option"
  location_lon :: "real option"
  response_plan :: response
  estimated_response_time :: "int option"
  actual_response_time :: "int option"
  e_notes :: "string option"
  created_at :: time
  updated_at :: time

record EmergencyStatusUpdate =
  su_emergency_id :: uuid
  su_old_status :: EmergencyStatus
  su_new_status :: EmergencyStatus
  su_notes :: "string option"
  su_created_at :: time

record Notification =
  n_emergency_id :: "uuid option"
  n_recipient_type :: string
  n_recipient_id :: string
  n_message :: string
  n_status :: string
  n_created_at :: time

record NotificationSubscription =
  s_subscriber_type :: string
  s_subscriber_id :: string
  s_notification_type :: string
  s_channel :: string

record store =
  emergencies :: "emergency list"
  status_updates :: "EmergencyStatusUpdate list"
  notifications :: "Notification list"
  subscriptions :: "NotificationSubscription list"
  stdout :: "string list"

section \<open>Notifications (services/notification/notification_service.py)\<close>

text \<open>
  \<^verbatim>\<open>send_notification\<close> prints one line and returns \<^verbatim>\<open>True\<close>; where \<^verbatim>\<open>json.dumps(data)\<close>
  raises, it prints the failure and returns \<^verbatim>\<open>False\<close>. \<open>dumps\<close> is \<^verbatim>\<open>json.dumps\<close>:
  \<open>Inr\<close> the text, \<open>Inl\<close> the message of what it raises.
\<close>

definition send_notification ::
  "('d \<Rightarrow> string + string) \<Rightarrow> string \<Rightarrow> 'd \<Rightarrow> store \<Rightarrow> bool \<times> store" where
  "send_notification dumps channel data db =
    (case dumps data of
       Inr text \<Rightarrow>
         (True, db\<lparr>stdout := stdout db @ [''Sending notification to '' @ channel @ '': '' @ text]\<rparr>)
     | Inl e \<Rightarrow>
         (False, db\<lparr>stdout := stdout db @ [''Failed to send notification: '' @ e]\<rparr>))"

section \<open>The endpoints (main.py)\<close>

text \<open>The two dicts that \<^verbatim>\<open>main.py\<close> hands to \<^verbatim>\<open>send_notification\<close>.\<close>

datatype payload =
    EmergencyPayload uuid response
  | StatusPayload uuid EmergencyStatus EmergencyStatus "string option"

record EmergencyResponse =
  er_emergency_type :: string
  er_priority_level :: string
  er_response_plan :: response
  er_estimated_response_time :: "int option"

text \<open>
  The SQLAlchemy session of one request: the store, and the objects added and not yet
  committed. The only row a report adds has \<^verbatim>\<open>None\<close> in its two \<^verbatim>\<open>DateTime\<close> columns, which
  the columns accept, so the commit of a report goes through.
\<close>

record session =
  db_store :: store
  db_new :: "emergency list"

definition db_add :: "emergency \<Rightarrow> session \<Rightarrow> session" where
  "db_add row db = db\<lparr>db_new := db_new db @ [row]\<rparr>"

definition db_commit :: "session \<Rightarrow> session" where
  "db_commit db =
    \<lparr>db_store = (db_store db)\<lparr>emergencies := emergencies (db_store db) @ db_new db\<rparr>,
     db_new = []\<rparr>"

definition db_rollback :: "session \<Rightarrow> session" where
  "db_rollback db = db\<lparr>db_new := []\<rparr>"

text \<open>
  The \<^verbatim>\<open>try\<close> block of \<^verbatim>\<open>report_emergency\<close>. An uploaded file is its content
  (\<^verbatim>\<open>audio.read()\<close>); an \<^verbatim>\<open>UploadFile\<close> object is true also when the content is empty.
  \<open>new_id\<close> is what \<^verbatim>\<open>uuid4()\<close> returns and \<open>now\<close> the database's clock at the insert (the
  server default of \<^verbatim>\<open>created_at\<close> and \<^verbatim>\<open>updated_at\<close>). The calls of the logger are left out.
\<close>

definition report_emergency_try ::
  "coordinator \<Rightarrow> (payload \<Rightarrow> string + string) \<Rightarrow> bytes option \<Rightarrow> string option \<Rightarrow>
   real option \<Rightarrow> real option \<Rightarrow> uuid \<Rightarrow> time \<Rightarrow> session \<Rightarrow> (exn + EmergencyResponse) \<times> session" where
  "report_emergency_try coord dumps audio text lat lon new_id now db =
    (if audio = None \<and> \<not> truthy text
     then (Inl (HTTPException 400 (Text ''Either audio or text must be provided'')), db)
     else
       (let audio_data = audio;
            location = (case lat of
                          None \<Rightarrow> None
                        | Some la \<Rightarrow>
                           (case lon of
                              None \<Rightarrow> None
                            | Some lo \<Rightarrow> Some \<lparr>loc_lat = la, loc_lon = lo\<rparr>))
        in case process_emergency coord text audio_data location of
             Inl e \<Rightarrow> (Inl e, db)
           | Inr response \<Rightarrow>
              (let emergency =
                     \<lparr>e_id = new_id,
                      emergency_type = r_type response,
                      priority_level = r_priority response,
                      status = ACTIVE,
                      location_lat = lat,
                      location_lon = lon,
                      response_plan = response,
                      estimated_response_time = None,
                      actual_response_time = None,
                      e_notes = None,
                      created_at = now,
                      updated_at = now\<rparr>;
                   db = db_add emergency db;
                   db = db_commit db;
                   (sent, st) = send_notification dumps ''emergency''
                                  (EmergencyPayload (e_id emergency) response) (db_store db);
                   db = db\<lparr>db_store := st\<rparr>
               in (Inr \<lparr>er_emergency_type = r_type response,
                        er_priority_level = r_priority response,
                        er_response_plan = response,
                        er_estimated_response_time = None\<rparr>, db))))"

text \<open>
  \<^verbatim>\<open>report_emergency\<close>: the handler \<^verbatim>\<open>except Exception as e\<close> catches whatever the block
  raises, an \<^verbatim>\<open>HTTPException\<close> of the block too (it is an \<^verbatim>\<open>Exception\<close>), rolls the session
  back and raises \<^verbatim>\<open>HTTPException(status_code=500, detail=str(e))\<close>. Each request has a
  session of its own, so the endpoint maps a store to a store.
\<close>

definition report_emergency ::
  "coordinator \<Rightarrow> (payload \<Rightarrow> string + string) \<Rightarrow> bytes option \<Rightarrow> string option \<Rightarrow>
   real option \<Rightarrow> real option \<Rightarrow> uuid \<Rightarrow> time \<Rightarrow> store \<Rightarrow> (exn + EmergencyResponse) \<times> store" where
  "report_emergency coord dumps audio text lat lon new_id now st =
    (case report_emergency_try coord dumps audio text lat lon new_id now
            \<lparr>db_store = st, db_new = []\<rparr> of
       (Inl e, db) \<Rightarrow> (Inl (HTTPException 500 (Str e)), db_store (db_rollback db))
     | (Inr r, db) \<Rightarrow> (Inr r, db_store db))"

record EmergencyUpdate =
  u_status :: EmergencyStatus
  u_notes :: "string option"

text \<open>
  \<^verbatim>\<open>int(delta.total_seconds() / 60)\<close> for a difference of \<open>d\<close> microseconds: the quotient
  by one minute, rounded towards zero as \<^verbatim>\<open>int\<close> rounds. The arithmetic is exact here, where
  the source's is in floating point.
\<close>

definition whole_minutes :: "int \<Rightarrow> int" where
  "whole_minutes d = (if 0 \<le> d then d div 60000000 else - ((- d) div 60000000))"

text \<open>
  The session writes a changed object back to the row it was loaded from: the first row of
  the query, as \<^verbatim>\<open>.first()\<close> returns it.
\<close>

fun write_back :: "('a \<Rightarrow> bool) \<Rightarrow> 'a \<Rightarrow> 'a list \<Rightarrow> 'a list" where
  "write_back P y [] = []"
| "write_back P y (x # xs) = (if P x then y # xs else x # write_back P y xs)"

text \<open>
  The columns \<^verbatim>\<open>estimated_response_time\<close> and \<^verbatim>\<open>actual_response_time\<close> are declared
  \<^verbatim>\<open>Column(DateTime)\<close> (database/models.py). The attributes of a row are what the code
  assigns to them, \<^verbatim>\<open>None\<close> or an \<^verbatim>\<open>int\<close>; a \<^verbatim>\<open>DateTime\<close> column accepts \<^verbatim>\<open>None\<close> and
  refuses an integer. The commit of an update writes the changed row back where the
  columns accept it, and raises otherwise, leaving the store as it was.
\<close>

definition datetime_columns_accept :: "emergency \<Rightarrow> bool" where
  "datetime_columns_accept row =
    (estimated_response_time row = None \<and> actual_response_time row = None)"

definition commit_update :: "uuid \<Rightarrow> emergency \<Rightarrow> store \<Rightarrow> exn + store" where
  "commit_update emergency_id row db =
    (if datetime_columns_accept row
     then Inr (db\<lparr>emergencies :=
                    write_back (\<lambda>e. e_id e = emergency_id) row (emergencies db)\<rparr>)
     else Inl StatementError)"

text \<open>
  \<^verbatim>\<open>update_emergency\<close>. \<open>now1\<close> and \<open>now2\<close> are its two readings of \<^verbatim>\<open>datetime.utcnow()\<close>.
  The endpoint has no handler: what \<^verbatim>\<open>db.commit()\<close> raises leaves the endpoint, before the
  notification is sent.
\<close>

definition update_emergency ::
  "(payload \<Rightarrow> string + string) \<Rightarrow> uuid \<Rightarrow> EmergencyUpdate \<Rightarrow> time \<Rightarrow> time \<Rightarrow> store \<Rightarrow>
   (exn + string) \<times> store" where
  "update_emergency dumps emergency_id update now1 now2 db =
    (case find (\<lambda>e. e_id e = emergency_id) (emergencies db) of
       None \<Rightarrow> (Inl (HTTPException 404 (Text ''Emergency not found'')), db)
     | Some emergency \<Rightarrow>
        (let old_status = status emergency;
             emergency = emergency\<lparr>status := u_status update, e_notes := u_notes update,
                                   updated_at := now1\<rparr>;
             emergency =
               (if u_status update = RESOLVED
                then emergency\<lparr>actual_response_time :=
                       Some (whole_minutes (now2 - created_at emergency))\<rparr>
                else emergency)
         in case commit_update emergency_id emergency db of
              Inl e \<Rightarrow> (Inl e, db)
            | Inr db \<Rightarrow>
               (let (sent, db) = send_notification dumps ''status_update''
                                   (StatusPayload emergency_id old_status (u_status update)
                                      (u_notes update)) db
                in (Inr ''Emergency updated successfully'', db))))"

text \<open>\<^verbatim>\<open>subscribe_to_notifications\<close> stores the subscription as it is given.\<close>

definition subscribe_to_notifications ::
  "NotificationSubscription \<Rightarrow> store \<Rightarrow> string \<times> store" where
  "subscribe_to_notifications subscription db =
    (''Subscription created successfully'',
     db\<lparr>subscriptions := subscriptions db @ [subscription]\<rparr>)"

section \<open>Stand-ins for the external providers\<close>

text \<open>
  Concrete providers for the evaluations below: a translation client that knows one Spanish
  sentence and takes every other text for English, an Apify client whose actors are all
  down, a \<^verbatim>\<open>json.dumps\<close> that renders every payload as the same text, and the empty store.
  \<open>example_coordinator\<close> is the coordinator the source builds, over these clients.
\<close>

definition example_google :: translate_client where
  "example_google request =
    (if contents request = [''Fuego en el edificio'']
     then Inr [\<lparr>translated_text = ''Fire in the building'', detected_language_code = ''es''\<rparr>]
     else Inr (map (\<lambda>c. \<lparr>translated_text = c, detected_language_code = ''en''\<rparr>)
                 (contents request)))"

definition example_apify :: apify_client where
  "example_apify actor run_input = Inl ''actor not found''"

definition example_coordinator :: coordinator where
  "example_coordinator = EmergencyCoordinator example_google ''projects/rapidrespond'' example_apify"

definition example_dumps :: "payload \<Rightarrow> string + string" where
  "example_dumps data = Inr ''{...}''"

definition empty_store :: store where
  "empty_store =
    \<lparr>emergencies = [], status_updates = [], notifications = [], subscriptions = [], stdout = []\<rparr>"


text \<open>
  Stores that the endpoints themselves produce: the empty store after one text report; that
  store after the emergency was cancelled five and a half minutes later; and the empty
  store after one subscription to the \<open>emergency\<close> notifications.
\<close>

definition example_store :: store where
  "example_store =
    snd (report_emergency example_coordinator example_dumps None (Some ''Fire emergency'')
           None None 1 0 empty_store)"

definition example_cancelled :: store where
  "example_cancelled =
    snd (update_emergency example_dumps 1 \<lparr>u_status = CANCELLED, u_notes = None\<rparr>
           330000000 330000000 example_store)"

definition example_subscribed :: store where
  "example_subscribed =
    snd (subscribe_to_notifications
           \<lparr>s_subscriber_type = ''service'', s_subscriber_id = ''fire-station-1'',
            s_notification_type = ''emergency'', s_channel = ''websocket''\<rparr> empty_store)"

section \<open>Properties of the required-service resolver\<close>

lemma dom_get_required_services:
  "dom (get_required_services t c) = {''fire'', ''medical'', ''police'', ''rescue''}"
  unfolding get_required_services_def Let_def by auto

lemma get_required_services_eq_spec:
  "get_required_services t c = spec_resolver t c"
  unfolding get_required_services_def spec_resolver_def spec_base_table_def
    spec_escalation_def Let_def
  by (rule ext) simp

text \<open>
  C1. For every emergency type and confidence, the resolver returns the boolean map over
  the four keys fire, medical, police, rescue that is the union of the base table and, when
  the confidence exceeds 0.8, the escalation table. (FIRE, 0.9) gives fire, rescue and
  medical true and police false; (CRIME, 0.5) gives police true and the others false.
\<close>

theorem resolver_is_rule_table:
  "get_required_services t c = spec_resolver t c
   \<and> get_required_services ''FIRE'' 0.9 =
       [''fire'' \<mapsto> True, ''rescue'' \<mapsto> True, ''medical'' \<mapsto> True, ''police'' \<mapsto> False]
   \<and> get_required_services ''CRIME'' 0.5 =
       [''police'' \<mapsto> True, ''fire'' \<mapsto> False, ''medical'' \<mapsto> False, ''rescue'' \<mapsto> False]"
proof (intro conjI)
  show "get_required_services t c = spec_resolver t c"
    by (rule get_required_services_eq_spec)
  show "get_required_services ''FIRE'' 0.9 =
       [''fire'' \<mapsto> True, ''rescue'' \<mapsto> True, ''medical'' \<mapsto> True, ''police'' \<mapsto> False]"
    unfolding get_required_services_def Let_def by (rule ext) simp
  show "get_required_services ''CRIME'' 0.5 =
       [''police'' \<mapsto> True, ''fire'' \<mapsto> False, ''medical'' \<mapsto> False, ''rescue'' \<mapsto> False]"
    unfolding get_required_services_def Let_def by (rule ext) simp
qed

text \<open>
  C10. The resolver is monotone in the confidence: for confidences \<open>c \<le> c'\<close>, a service
  that is enabled at \<open>c\<close> is enabled at \<open>c'\<close>; and the returned map has exactly the four keys
  fire, medical, police and rescue.
\<close>

theorem resolver_monotone_in_confidence:
  assumes "c \<le> c'"
  shows "(get_required_services t c k = Some True
            \<longrightarrow> get_required_services t c' k = Some True)
         \<and> dom (get_required_services t c) = {''fire'', ''medical'', ''police'', ''rescue''}"
proof (intro conjI impI)
  assume en: "get_required_services t c k = Some True"
  show "get_required_services t c' k = Some True"
  proof (cases "c > 0.8")
    case True
    with assms have "c' > 0.8" by simp
    with True en show ?thesis
      unfolding get_required_services_def Let_def by simp
  next
    case False
    with en show ?thesis
      unfolding get_required_services_def Let_def
      by (simp split: if_splits)
  qed
next
  show "dom (get_required_services t c) = {''fire'', ''medical'', ''police'', ''rescue''}"
    by (rule dom_get_required_services)
qed

theorem resolver_monotone_in_confidence_witness:
  "(0.5::real) \<le> 0.9
   \<and> get_required_services ''FIRE'' 0.5 ''fire'' = Some True
   \<and> get_required_services ''FIRE'' 0.9 ''fire'' = Some True
   \<and> get_required_services ''FIRE'' 0.5 ''rescue'' = Some False
   \<and> get_required_services ''FIRE'' 0.9 ''rescue'' = Some True
   \<and> dom (get_required_services ''FIRE'' 0.5) = {''fire'', ''medical'', ''police'', ''rescue''}"
proof -
  have h: "(0.5::real) \<le> 0.9" by simp
  have en: "get_required_services ''FIRE'' 0.5 ''fire'' = Some True"
    unfolding get_required_services_def Let_def by simp
  have r1: "get_required_services ''FIRE'' 0.5 ''rescue'' = Some False"
    unfolding get_required_services_def Let_def by simp
  have r2: "get_required_services ''FIRE'' 0.9 ''rescue'' = Some True"
    unfolding get_required_services_def Let_def by simp
  from resolver_monotone_in_confidence [OF h, of "''FIRE''" "''fire''"] en h r1 r2
  show ?thesis by simp
qed

section \<open>Properties of the context enrichment\<close>





















section \<open>Properties of the report endpoint\<close>

lemma report_failure_store:
  assumes "report_emergency coord dumps audio tx lat lon new_id now st = (Inl e, st')"
  shows "st' = st"
  using assms
  unfolding report_emergency_def report_emergency_try_def db_rollback_def Let_def
  by (simp split: if_splits sum.splits prod.splits)

lemma try_classify_fails:
  "\<exists>msg. process_emergency_try (coord\<lparr>classify := (\<lambda>t. Inl (m t))\<rparr>) tx audio loc = Inl msg"
  unfolding process_emergency_try_def
  by (simp split: option.split sum.split)

lemma process_classify_fails:
  "\<exists>msg. process_emergency (coord\<lparr>classify := (\<lambda>t. Inl (m t))\<rparr>) tx audio loc
          = Inl (Exception msg)"
proof -
  obtain msg where
    "process_emergency_try (coord\<lparr>classify := (\<lambda>t. Inl (m t))\<rparr>) tx audio loc = Inl msg"
    using try_classify_fails by blast
  then show ?thesis by (simp add: process_emergency_def)
qed

lemma report_classify_fails:
  "\<exists>d. report_emergency (coord\<lparr>classify := (\<lambda>t. Inl (m t))\<rparr>) dumps audio tx lat lon
          new_id now st = (Inl (HTTPException 500 d), st)"
proof (cases "audio = None \<and> \<not> truthy tx")
  case True
  then show ?thesis
    by (simp add: report_emergency_def report_emergency_try_def db_rollback_def)
next
  case False
  define loc where
    "loc = (case lat of None \<Rightarrow> None
            | Some la \<Rightarrow> (case lon of None \<Rightarrow> None
                | Some lo \<Rightarrow> Some \<lparr>loc_lat = la, loc_lon = lo\<rparr>))"
  obtain msg where
    "process_emergency (coord\<lparr>classify := (\<lambda>t. Inl (m t))\<rparr>) tx audio loc
       = Inl (Exception msg)"
    using process_classify_fails by blast
  with False show ?thesis
    unfolding report_emergency_def report_emergency_try_def db_rollback_def Let_def loc_def
    by auto
qed

text \<open>
  C3. When the classification provider fails, the report is answered with an error (the
  HTTP status 500 under which the endpoint reports every upstream failure) and the store
  is what it was: no emergency is created. More generally, whenever the report fails, for
  whatever reason, the store is unchanged.
\<close>

theorem classification_failure_persists_nothing:
  fixes coord :: coordinator
  shows "(\<exists>d. report_emergency (coord\<lparr>classify := (\<lambda>t. Inl (m t))\<rparr>) dumps audio tx lat lon
           new_id now st = (Inl (HTTPException 500 d), st))
   \<and> (report_emergency coord dumps audio tx lat lon new_id now st = (Inl e, st')
        \<longrightarrow> st' = st)"
proof (intro conjI impI)
  show "\<exists>d. report_emergency (coord\<lparr>classify := (\<lambda>t. Inl (m t))\<rparr>) dumps audio tx lat lon
           new_id now st = (Inl (HTTPException 500 d), st)"
    by (rule report_classify_fails)
next
  assume "report_emergency coord dumps audio tx lat lon new_id now st = (Inl e, st')"
  then show "st' = st" by (rule report_failure_store)
qed

theorem classification_failure_persists_nothing_witness:
  "report_emergency
     (example_coordinator\<lparr>classify := (\<lambda>t. Inl ''Classification failed: model not loaded'')\<rparr>)
     example_dumps None (Some ''Fire emergency'') None None 1 0 empty_store =
   (Inl (HTTPException 500 (Str (Exception
      ''Failed to process emergency: Classification failed: model not loaded''))),
    empty_store)"
proof -
  have ev: "fst (report_emergency
     (example_coordinator\<lparr>classify := (\<lambda>t. Inl ''Classification failed: model not loaded'')\<rparr>)
     example_dumps None (Some ''Fire emergency'') None None 1 0 empty_store) =
    Inl (HTTPException 500 (Str (Exception
      ''Failed to process emergency: Classification failed: model not loaded'')))"
    by (simp add: report_emergency_def report_emergency_try_def process_emergency_def
        process_emergency_try_def example_coordinator_def EmergencyCoordinator_def
        TranslationService_detect_language_def example_google_def is_translation_needed_def
        lower_def lower_char_def truthy_def)
  from classification_failure_persists_nothing
    [where coord = "example_coordinator\<lparr>classify :=
                      (\<lambda>t. Inl ''Classification failed: model not loaded'')\<rparr>"
       and dumps = example_dumps and audio = None and tx = "Some ''Fire emergency''"
       and lat = None and lon = None and new_id = 1 and now = 0 and st = empty_store]
  show ?thesis using ev by (auto simp: prod_eq_iff)
qed

text \<open>
  C5 (evaluation). A report with neither text nor audio raises the 400 inside the
  \<^verbatim>\<open>try\<close> block, where the endpoint's own handler catches it: the answer is the status
  500, with the 400 as its detail. The store is unchanged. The same holds for an empty text.
\<close>

theorem report_without_input_is_answered_500:
  "report_emergency coord dumps None None lat lon new_id now st =
     (Inl (HTTPException 500
        (Str (HTTPException 400 (Text ''Either audio or text must be provided'')))), st)
   \<and> report_emergency coord dumps None (Some []) lat lon new_id now st =
     (Inl (HTTPException 500
        (Str (HTTPException 400 (Text ''Either audio or text must be provided'')))), st)"
  by (simp add: report_emergency_def report_emergency_try_def db_rollback_def truthy_def)

section \<open>Properties of the coordinator\<close>

lemma try_text_wins:
  assumes "tx \<noteq> []"
  shows "process_emergency_try self (Some tx) audio loc
         = process_emergency_try self (Some tx) None loc"
proof (cases audio)
  case None
  then show ?thesis by simp
next
  case (Some a)
  have t: "truthy (Some tx)" using assms by (simp add: truthy_def)
  show ?thesis unfolding process_emergency_try_def Some
    by (simp only: t option.case simp_thms if_False)
qed

lemma try_audio_only:
  assumes "a \<noteq> []" and "\<not> truthy txo" and "speech_transcribe self a = Inr tr"
  shows "process_emergency_try self txo (Some a) loc
         = process_emergency_try self (Some (t_text tr)) None loc"
  unfolding process_emergency_try_def
  by (simp only: assms option.case sum.case simp_thms if_True)

lemma try_audio_fails:
  assumes "a \<noteq> []" and "\<not> truthy txo" and "speech_transcribe self a = Inl e"
  shows "process_emergency_try self txo (Some a) loc = Inl e"
  unfolding process_emergency_try_def
  by (simp only: assms option.case sum.case simp_thms if_True)

lemma try_translated:
  assumes "tx \<noteq> []" and "detect_language self tx = Inr lr"
    and "is_translation_needed (l_language lr)"
    and "translate self tx = Inr trn" and "classify self (tl_translated_text trn) = Inr c"
  shows "process_emergency_try self (Some tx) None loc =
     Inr \<lparr>r_type = c_type c, r_priority = c_priority c,
          r_details =
            \<lparr>original_text = tl_translated_text trn, d_location = loc,
             d_confidence = c_confidence c,
             required_services = get_required_services (c_type c) (c_confidence c),
             d_context =
               (case loc of
                  None \<Rightarrow> None
                | Some l \<Rightarrow> Some (JObj
                    ((''weather'', u_get_weather_data (data_collector_client self) l)
                     # (''traffic'', u_get_traffic_data (data_collector_client self) l)
                     # u_get_facilities_data (data_collector_client self) l (c_type c))))\<rparr>\<rparr>"
  using assms unfolding process_emergency_try_def get_emergency_context_def Let_def
  by (cases loc) simp_all

lemmas example_defs =
  process_emergency_def process_emergency_try_def example_coordinator_def
  EmergencyCoordinator_def TranslationService_detect_language_def
  TranslationService_translate_def example_google_def is_translation_needed_def
  lower_def lower_char_def truthy_def EmergencyClassifier_classify_def
  SpeechService_transcribe_test_mode_def

text \<open>
  C6 (as the claim states it, refuted). A report with both a text and audio: the record is
  built from the text, while the transcription of that audio is another text.
\<close>

theorem audio_precedence_counterexample:
  "process_emergency example_coordinator (Some ''Car crash on Main Street'')
       (Some [82, 73, 70, 70]) None =
     Inr \<lparr>r_type = ''FIRE'', r_priority = ''HIGH'',
          r_details = \<lparr>original_text = ''Car crash on Main Street'', d_location = None,
                       d_confidence = 0.95,
                       required_services = get_required_services ''FIRE'' 0.95,
                       d_context = None\<rparr>\<rparr>
   \<and> speech_transcribe example_coordinator [82, 73, 70, 70] =
     Inr \<lparr>t_text = ''Help! There is a medical emergency at Central Park. Someone has collapsed and is not breathing.'',
          t_language = ''en'', t_duration = 5\<rparr>"
  by (simp add: example_defs)

text \<open>
  C6 (amended). A report with a non-empty text is processed as the same report without
  audio: the text takes precedence and the transcription is not used. Audio is transcribed
  only when there is no non-empty text; then the transcribed text is processed as a text
  report is, and a failure of the transcription fails the request.
\<close>

theorem text_takes_precedence_over_audio:
  "(tx \<noteq> [] \<longrightarrow>
      process_emergency self (Some tx) audio loc = process_emergency self (Some tx) None loc)
   \<and> (a \<noteq> [] \<and> \<not> truthy txo \<and> speech_transcribe self a = Inr tr \<longrightarrow>
      process_emergency self txo (Some a) loc
      = process_emergency self (Some (t_text tr)) None loc)
   \<and> (a \<noteq> [] \<and> \<not> truthy txo \<and> speech_transcribe self a = Inl e \<longrightarrow>
      process_emergency self txo (Some a) loc
      = Inl (Exception (''Failed to process emergency: '' @ e)))"
proof (intro conjI impI; (elim conjE)?)
  assume "tx \<noteq> []"
  then have "process_emergency_try self (Some tx) audio loc
             = process_emergency_try self (Some tx) None loc"
    by (rule try_text_wins)
  then show "process_emergency self (Some tx) audio loc
             = process_emergency self (Some tx) None loc"
    unfolding process_emergency_def by (rule arg_cong)
next
  assume "a \<noteq> []" "\<not> truthy txo" "speech_transcribe self a = Inr tr"
  then have "process_emergency_try self txo (Some a) loc
             = process_emergency_try self (Some (t_text tr)) None loc"
    by (rule try_audio_only)
  then show "process_emergency self txo (Some a) loc
             = process_emergency self (Some (t_text tr)) None loc"
    unfolding process_emergency_def by (rule arg_cong)
next
  assume "a \<noteq> []" "\<not> truthy txo" "speech_transcribe self a = Inl e"
  then have "process_emergency_try self txo (Some a) loc = Inl e"
    by (rule try_audio_fails)
  then show "process_emergency self txo (Some a) loc
             = Inl (Exception (''Failed to process emergency: '' @ e))"
    unfolding process_emergency_def by (simp only: sum.case)
qed

theorem text_takes_precedence_over_audio_witness:
  "process_emergency example_coordinator (Some ''Car crash on Main Street'')
       (Some [82, 73, 70, 70]) None
     = process_emergency example_coordinator (Some ''Car crash on Main Street'') None None
   \<and> process_emergency example_coordinator None (Some [82, 73, 70, 70]) None
     = process_emergency example_coordinator
         (Some ''Help! There is a medical emergency at Central Park. Someone has collapsed and is not breathing.'')
         None None
   \<and> process_emergency
       (example_coordinator\<lparr>speech_transcribe :=
          (\<lambda>audio_data. Inl ''Failed to transcribe audio: Whisper model not initialized'')\<rparr>)
       None (Some [82, 73, 70, 70]) None
     = Inl (Exception
        ''Failed to process emergency: Failed to transcribe audio: Whisper model not initialized'')"
proof -
  have h1: "''Car crash on Main Street'' \<noteq> []" by simp
  have h2: "[82, 73, 70, 70] \<noteq> ([] :: bytes)" by simp
  have h3: "\<not> truthy (None :: string option)" by (simp add: truthy_def)
  have h4: "speech_transcribe example_coordinator [82, 73, 70, 70] =
     Inr \<lparr>t_text = ''Help! There is a medical emergency at Central Park. Someone has collapsed and is not breathing.'',
          t_language = ''en'', t_duration = 5\<rparr>"
    by (simp add: example_coordinator_def EmergencyCoordinator_def
        SpeechService_transcribe_test_mode_def)
  have h5: "speech_transcribe
       (example_coordinator\<lparr>speech_transcribe :=
          (\<lambda>audio_data. Inl ''Failed to transcribe audio: Whisper model not initialized'')\<rparr>)
       [82, 73, 70, 70] = Inl ''Failed to transcribe audio: Whisper model not initialized''"
    by simp
  have c1: "process_emergency example_coordinator (Some ''Car crash on Main Street'')
       (Some [82, 73, 70, 70]) None
     = process_emergency example_coordinator (Some ''Car crash on Main Street'') None None"
    by (rule text_takes_precedence_over_audio [THEN conjunct1, rule_format, OF h1])
  have c2: "process_emergency example_coordinator None (Some [82, 73, 70, 70]) None
     = process_emergency example_coordinator
         (Some (t_text \<lparr>t_text = ''Help! There is a medical emergency at Central Park. Someone has collapsed and is not breathing.'',
          t_language = ''en'', t_duration = 5\<rparr>))
         None None"
    by (rule text_takes_precedence_over_audio
          [THEN conjunct2, THEN conjunct1, rule_format, OF conjI [OF h2 conjI [OF h3 h4]]])
  have c3: "process_emergency
       (example_coordinator\<lparr>speech_transcribe :=
          (\<lambda>audio_data. Inl ''Failed to transcribe audio: Whisper model not initialized'')\<rparr>)
       None (Some [82, 73, 70, 70]) None
     = Inl (Exception
        (''Failed to process emergency: '' @ ''Failed to transcribe audio: Whisper model not initialized''))"
    by (rule text_takes_precedence_over_audio
          [THEN conjunct2, THEN conjunct2, rule_format, OF conjI [OF h2 conjI [OF h3 h5]]])
  have t: "t_text \<lparr>t_text = ''Help! There is a medical emergency at Central Park. Someone has collapsed and is not breathing.'',
          t_language = ''en'', t_duration = 5\<rparr>
        = ''Help! There is a medical emergency at Central Park. Someone has collapsed and is not breathing.''"
    by simp
  have m: "''Failed to process emergency: '' @ ''Failed to transcribe audio: Whisper model not initialized''
        = ''Failed to process emergency: Failed to transcribe audio: Whisper model not initialized''"
    by simp
  from c1 c2 c3 show ?thesis unfolding t m by (intro conjI)
qed

text \<open>
  C9 (as the claim states it, refuted). A Spanish report: the language is detected as
  \<open>es\<close>, and the record's \<open>original_text\<close> is the English translation. The Spanish text and
  the detected language are nowhere in the record.
\<close>

theorem original_text_counterexample:
  "process_emergency example_coordinator (Some ''Fuego en el edificio'') None None =
     Inr \<lparr>r_type = ''FIRE'', r_priority = ''HIGH'',
          r_details = \<lparr>original_text = ''Fire in the building'', d_location = None,
                       d_confidence = 0.95,
                       required_services = get_required_services ''FIRE'' 0.95,
                       d_context = None\<rparr>\<rparr>
   \<and> detect_language example_coordinator ''Fuego en el edificio''
     = Inr \<lparr>l_language = ''es'', l_confidence = 1\<rparr>"
  by (simp add: example_defs)

text \<open>
  C9 (amended). When the detected language is not English and the translation and the
  classification succeed, the translated text is what the classifier reads, the resolver
  reads that classification, and the record's \<open>original_text\<close> is the translated text.
\<close>

theorem translated_text_is_recorded:
  assumes "tx \<noteq> []" and "detect_language self tx = Inr lr"
    and "is_translation_needed (l_language lr)"
    and "translate self tx = Inr trn" and "classify self (tl_translated_text trn) = Inr c"
  shows "process_emergency self (Some tx) audio loc =
     Inr \<lparr>r_type = c_type c, r_priority = c_priority c,
          r_details =
            \<lparr>original_text = tl_translated_text trn, d_location = loc,
             d_confidence = c_confidence c,
             required_services = get_required_services (c_type c) (c_confidence c),
             d_context =
               (case loc of
                  None \<Rightarrow> None
                | Some l \<Rightarrow> Some (JObj
                    ((''weather'', u_get_weather_data (data_collector_client self) l)
                     # (''traffic'', u_get_traffic_data (data_collector_client self) l)
                     # u_get_facilities_data (data_collector_client self) l (c_type c))))\<rparr>\<rparr>"
proof -
  have "process_emergency_try self (Some tx) audio loc
        = process_emergency_try self (Some tx) None loc"
    using assms(1) by (rule try_text_wins)
  then show ?thesis
    unfolding process_emergency_def
    by (simp only: try_translated [OF assms] sum.case)
qed

theorem translated_text_is_recorded_witness:
  "is_translation_needed ''es''
   \<and> process_emergency example_coordinator (Some ''Fuego en el edificio'')
       (Some [82, 73, 70, 70]) (Some \<lparr>loc_lat = 40.7128, loc_lon = - 74.006\<rparr>) =
     Inr \<lparr>r_type = ''FIRE'', r_priority = ''HIGH'',
          r_details =
            \<lparr>original_text = ''Fire in the building'',
             d_location = Some \<lparr>loc_lat = 40.7128, loc_lon = - 74.006\<rparr>,
             d_confidence = 0.95,
             required_services = get_required_services ''FIRE'' 0.95,
             d_context = Some (JObj [(''weather'', weather_default),
                                     (''traffic'', traffic_default),
                                     (''fire_stations'', JList [])])\<rparr>\<rparr>"
proof -
  have h1: "''Fuego en el edificio'' \<noteq> []" by simp
  have h2: "detect_language example_coordinator ''Fuego en el edificio''
            = Inr \<lparr>l_language = ''es'', l_confidence = 1\<rparr>"
    by (simp add: example_defs)
  have h3: "is_translation_needed (l_language \<lparr>l_language = ''es'', l_confidence = 1\<rparr>)"
    by (simp add: is_translation_needed_def lower_def lower_char_def)
  have h4: "translate example_coordinator ''Fuego en el edificio''
            = Inr \<lparr>tl_translated_text = ''Fire in the building'', tl_detected_language = ''es'',
                   tl_source_language = ''es'', tl_target_language = ''en''\<rparr>"
    by (simp add: example_defs)
  have h5: "classify example_coordinator
              (tl_translated_text \<lparr>tl_translated_text = ''Fire in the building'',
                  tl_detected_language = ''es'', tl_source_language = ''es'',
                  tl_target_language = ''en''\<rparr>)
            = Inr \<lparr>c_type = ''FIRE'', c_confidence = 0.95, c_priority = ''HIGH''\<rparr>"
    by (simp add: example_defs)
  have ctx: "data_collector_client example_coordinator = example_apify"
    by (simp add: example_coordinator_def EmergencyCoordinator_def)
  have sub: "u_get_weather_data example_apify l = weather_default"
    "u_get_traffic_data example_apify l = traffic_default"
    "u_get_facilities_data example_apify l ''FIRE'' = [(''fire_stations'', JList [])]" for l
    by (simp_all add: u_get_weather_data_def u_get_traffic_data_def u_get_facilities_data_def
        u_get_fire_stations_def facility_query_def example_apify_def)
  from translated_text_is_recorded [OF h1 h2 h3 h4 h5,
      where audio = "Some [82, 73, 70, 70]"
        and loc = "Some \<lparr>loc_lat = 40.7128, loc_lon = - 74.006\<rparr>"] h3
  show ?thesis by (simp add: ctx sub)
qed


section \<open>Properties of the stored records\<close>

lemma send_notification_tables:
  "emergencies (snd (send_notification dumps channel data db)) = emergencies db"
  "status_updates (snd (send_notification dumps channel data db)) = status_updates db"
  "notifications (snd (send_notification dumps channel data db)) = notifications db"
  "subscriptions (snd (send_notification dumps channel data db)) = subscriptions db"
  by (simp_all add: send_notification_def split: sum.split)

lemma send_notification_sent:
  assumes "dumps data = Inr rendered"
  shows "fst (send_notification dumps channel data db) = True"
    and "stdout (snd (send_notification dumps channel data db))
         = stdout db @ [''Sending notification to '' @ channel @ '': '' @ rendered]"
  by (simp_all add: send_notification_def assms)

lemma send_notification_failed:
  assumes "dumps data = Inl err"
  shows "fst (send_notification dumps channel data db) = False"
    and "stdout (snd (send_notification dumps channel data db))
         = stdout db @ [''Failed to send notification: '' @ err]"
  by (simp_all add: send_notification_def assms)

lemma find_write_back:
  assumes "find P xs = Some x" and "P y"
  shows "find P (write_back P y xs) = Some y"
  using assms by (induction xs) (auto split: if_splits)

lemma find_holds: "find P xs = Some x \<Longrightarrow> P x"
  by (induction xs) (auto split: if_splits)

lemma list_all_write_back:
  assumes "list_all Q xs" and "Q y"
  shows "list_all Q (write_back P y xs)"
  using assms by (induction xs) auto

lemma update_missing:
  assumes "find (\<lambda>e. e_id e = i) (emergencies db) = None"
  shows "update_emergency dumps i upd now1 now2 db =
    (Inl (HTTPException 404 (Text ''Emergency not found'')), db)"
  unfolding update_emergency_def by (simp add: assms)

lemma update_resolved:
  assumes "find (\<lambda>e. e_id e = i) (emergencies db) = Some em" and "u_status upd = RESOLVED"
  shows "update_emergency dumps i upd now1 now2 db = (Inl StatementError, db)"
  unfolding update_emergency_def commit_update_def datetime_columns_accept_def Let_def
  by (simp add: assms)

lemma update_accepted:
  assumes "find (\<lambda>e. e_id e = i) (emergencies db) = Some em"
    and "datetime_columns_accept em" and "u_status upd \<noteq> RESOLVED"
  shows "update_emergency dumps i upd now1 now2 db =
    (Inr ''Emergency updated successfully'',
     snd (send_notification dumps ''status_update''
            (StatusPayload i (status em) (u_status upd) (u_notes upd))
            (db\<lparr>emergencies :=
                  write_back (\<lambda>e. e_id e = i)
                    (em\<lparr>status := u_status upd, e_notes := u_notes upd, updated_at := now1\<rparr>)
                    (emergencies db)\<rparr>)))"
  using assms(2,3)
  unfolding update_emergency_def commit_update_def datetime_columns_accept_def Let_def
  by (simp add: assms(1) case_prod_beta)

lemma update_row_after:
  assumes "find (\<lambda>e. e_id e = i) (emergencies db) = Some em"
    and "datetime_columns_accept em" and "u_status upd \<noteq> RESOLVED"
  shows "find (\<lambda>e. e_id e = i) (emergencies (snd (update_emergency dumps i upd now1 now2 db)))
         = Some (em\<lparr>status := u_status upd, e_notes := u_notes upd, updated_at := now1\<rparr>)"
proof -
  have "e_id em = i" using find_holds [OF assms(1)] .
  then have "e_id (em\<lparr>status := u_status upd, e_notes := u_notes upd, updated_at := now1\<rparr>) = i"
    by simp
  then have "find (\<lambda>e. e_id e = i)
          (write_back (\<lambda>e. e_id e = i)
             (em\<lparr>status := u_status upd, e_notes := u_notes upd, updated_at := now1\<rparr>)
             (emergencies db))
        = Some (em\<lparr>status := u_status upd, e_notes := u_notes upd, updated_at := now1\<rparr>)"
    using find_write_back [OF assms(1),
        of "em\<lparr>status := u_status upd, e_notes := u_notes upd, updated_at := now1\<rparr>"]
    by simp
  then show ?thesis
    by (simp add: update_accepted [OF assms] send_notification_tables)
qed

lemma update_tables:
  "status_updates (snd (update_emergency dumps i upd now1 now2 db)) = status_updates db"
  "notifications (snd (update_emergency dumps i upd now1 now2 db)) = notifications db"
  "subscriptions (snd (update_emergency dumps i upd now1 now2 db)) = subscriptions db"
  unfolding update_emergency_def commit_update_def Let_def
  by (simp_all add: case_prod_beta send_notification_tables split: option.split)

text \<open>The store never holds a row that its DateTime columns refuse.\<close>

lemma update_keeps_columns:
  assumes "list_all datetime_columns_accept (emergencies db)"
  shows "list_all datetime_columns_accept
           (emergencies (snd (update_emergency dumps i upd now1 now2 db)))"
  using assms
  unfolding update_emergency_def commit_update_def Let_def
  by (auto simp: case_prod_beta send_notification_tables list_all_write_back
      split: option.split)

lemma report_keeps_columns:
  assumes "list_all datetime_columns_accept (emergencies st)"
  shows "list_all datetime_columns_accept
           (emergencies (snd (report_emergency coord dumps audio tx lat lon new_id now st)))"
  using assms
  unfolding report_emergency_def report_emergency_try_def db_rollback_def db_commit_def
    db_add_def Let_def
  by (simp add: case_prod_beta send_notification_tables datetime_columns_accept_def
      split: sum.split)

lemma report_tables:
  "status_updates (snd (report_emergency coord dumps audio tx lat lon new_id now st)) = status_updates st"
  "notifications (snd (report_emergency coord dumps audio tx lat lon new_id now st)) = notifications st"
  "subscriptions (snd (report_emergency coord dumps audio tx lat lon new_id now st)) = subscriptions st"
  unfolding report_emergency_def report_emergency_try_def db_rollback_def db_commit_def db_add_def Let_def
  by (simp_all add: case_prod_beta send_notification_tables split: sum.split)

lemma example_store_value:
  "example_store =
    \<lparr>emergencies =
       [\<lparr>e_id = 1, emergency_type = ''FIRE'', priority_level = ''HIGH'', status = ACTIVE,
         location_lat = None, location_lon = None,
         response_plan =
           \<lparr>r_type = ''FIRE'', r_priority = ''HIGH'',
            r_details = \<lparr>original_text = ''Fire emergency'', d_location = None,
                         d_confidence = 0.95,
                         required_services = get_required_services ''FIRE'' 0.95,
                         d_context = None\<rparr>\<rparr>,
         estimated_response_time = None, actual_response_time = None, e_notes = None,
         created_at = 0, updated_at = 0\<rparr>],
     status_updates = [], notifications = [], subscriptions = [],
     stdout = [''Sending notification to emergency: {...}'']\<rparr>"
  by (simp add: example_store_def report_emergency_def report_emergency_try_def example_defs
      db_add_def db_commit_def send_notification_def example_dumps_def empty_store_def)

lemma example_cancelled_value:
  "example_cancelled =
    \<lparr>emergencies =
       [\<lparr>e_id = 1, emergency_type = ''FIRE'', priority_level = ''HIGH'', status = CANCELLED,
         location_lat = None, location_lon = None,
         response_plan =
           \<lparr>r_type = ''FIRE'', r_priority = ''HIGH'',
            r_details = \<lparr>original_text = ''Fire emergency'', d_location = None,
                         d_confidence = 0.95,
                         required_services = get_required_services ''FIRE'' 0.95,
                         d_context = None\<rparr>\<rparr>,
         estimated_response_time = None, actual_response_time = None, e_notes = None,
         created_at = 0, updated_at = 330000000\<rparr>],
     status_updates = [], notifications = [], subscriptions = [],
     stdout = [''Sending notification to emergency: {...}'',
               ''Sending notification to status_update: {...}'']\<rparr>"
  by (simp add: example_cancelled_def example_store_value update_emergency_def
      commit_update_def datetime_columns_accept_def send_notification_def example_dumps_def)

lemmas update_eval =
  update_emergency_def commit_update_def datetime_columns_accept_def send_notification_def
  example_dumps_def whole_minutes_def

text \<open>
  C2 (as the claim states it, refuted). The reported emergency was cancelled, a terminal
  state. A second update to CANCELLED succeeds and leaves no EmergencyStatusUpdate record;
  an update to ACTIVE succeeds too, and the status is ACTIVE again.
\<close>

theorem terminal_status_counterexample:
  "map status (emergencies example_cancelled) = [CANCELLED]
   \<and> fst (update_emergency example_dumps 1 \<lparr>u_status = CANCELLED, u_notes = None\<rparr>
            600000000 600000000 example_cancelled) = Inr ''Emergency updated successfully''
   \<and> status_updates (snd (update_emergency example_dumps 1
            \<lparr>u_status = CANCELLED, u_notes = None\<rparr> 600000000 600000000 example_cancelled))
       = []
   \<and> fst (update_emergency example_dumps 1 \<lparr>u_status = ACTIVE, u_notes = None\<rparr>
            600000000 600000000 example_cancelled) = Inr ''Emergency updated successfully''
   \<and> map status (emergencies (snd (update_emergency example_dumps 1
            \<lparr>u_status = ACTIVE, u_notes = None\<rparr> 600000000 600000000 example_cancelled)))
       = [ACTIVE]"
  by (simp add: example_cancelled_value update_eval)

text \<open>
  C2 (amended). For every stored emergency, whatever its status, terminal or not, an
  update that requests ACTIVE or CANCELLED succeeds and overwrites the status and the
  notes with the requested ones; and no call of \<^verbatim>\<open>update_emergency\<close> creates an
  EmergencyStatusUpdate record. A stored emergency is a row whose DateTime columns hold
  nothing, as every row that the endpoints store does.
\<close>

theorem update_overwrites_any_status:
  "(find (\<lambda>e. e_id e = i) (emergencies db) = Some em \<and> datetime_columns_accept em
      \<and> u_status upd \<noteq> RESOLVED \<longrightarrow>
      fst (update_emergency dumps i upd now1 now2 db) = Inr ''Emergency updated successfully''
      \<and> map_option status
          (find (\<lambda>e. e_id e = i) (emergencies (snd (update_emergency dumps i upd now1 now2 db))))
         = Some (u_status upd)
      \<and> map_option e_notes
          (find (\<lambda>e. e_id e = i) (emergencies (snd (update_emergency dumps i upd now1 now2 db))))
         = Some (u_notes upd))
   \<and> status_updates (snd (update_emergency dumps i upd now1 now2 db)) = status_updates db"
proof (intro conjI impI; (elim conjE)?)
  assume a: "find (\<lambda>e. e_id e = i) (emergencies db) = Some em" "datetime_columns_accept em"
    "u_status upd \<noteq> RESOLVED"
  show "fst (update_emergency dumps i upd now1 now2 db) = Inr ''Emergency updated successfully''"
    by (simp add: update_accepted [OF a])
  show "map_option status
        (find (\<lambda>e. e_id e = i) (emergencies (snd (update_emergency dumps i upd now1 now2 db))))
       = Some (u_status upd)"
    by (simp add: update_row_after [OF a])
  show "map_option e_notes
        (find (\<lambda>e. e_id e = i) (emergencies (snd (update_emergency dumps i upd now1 now2 db))))
       = Some (u_notes upd)"
    by (simp add: update_row_after [OF a])
next
  show "status_updates (snd (update_emergency dumps i upd now1 now2 db)) = status_updates db"
    by (rule update_tables)
qed

theorem update_overwrites_any_status_witness:
  "map status (emergencies example_cancelled) = [CANCELLED]
   \<and> fst (update_emergency example_dumps 1 \<lparr>u_status = ACTIVE, u_notes = Some ''reopened''\<rparr>
            700000000 700000001 example_cancelled) = Inr ''Emergency updated successfully''
   \<and> map_option status
        (find (\<lambda>e. e_id e = 1) (emergencies (snd (update_emergency example_dumps 1
            \<lparr>u_status = ACTIVE, u_notes = Some ''reopened''\<rparr> 700000000 700000001
            example_cancelled))))
       = Some ACTIVE
   \<and> map_option e_notes
        (find (\<lambda>e. e_id e = 1) (emergencies (snd (update_emergency example_dumps 1
            \<lparr>u_status = ACTIVE, u_notes = Some ''reopened''\<rparr> 700000000 700000001
            example_cancelled))))
       = Some (Some ''reopened'')
   \<and> status_updates (snd (update_emergency example_dumps 1
            \<lparr>u_status = ACTIVE, u_notes = Some ''reopened''\<rparr> 700000000 700000001
            example_cancelled)) = []"
proof -
  have f: "find (\<lambda>e. e_id e = 1) (emergencies example_cancelled)
           = Some (hd (emergencies example_cancelled))"
    by (simp add: example_cancelled_value)
  have c: "datetime_columns_accept (hd (emergencies example_cancelled))"
    by (simp add: example_cancelled_value datetime_columns_accept_def)
  have n: "u_status \<lparr>u_status = ACTIVE, u_notes = Some ''reopened''\<rparr> \<noteq> RESOLVED" by simp
  have s: "map status (emergencies example_cancelled) = [CANCELLED]"
    and u: "status_updates example_cancelled = []"
    by (simp_all add: example_cancelled_value)
  note T = update_overwrites_any_status
      [where i = 1 and db = example_cancelled and em = "hd (emergencies example_cancelled)"
         and upd = "\<lparr>u_status = ACTIVE, u_notes = Some ''reopened''\<rparr>"
         and dumps = example_dumps and ?now1.0 = 700000000 and ?now2.0 = 700000001]
  from T [THEN conjunct1, rule_format, OF conjI [OF f conjI [OF c n]]]
    T [THEN conjunct2] s u
  show ?thesis by simp
qed

text \<open>
  C7 (evaluation). An update that requests RESOLVED computes the whole minutes and assigns
  the integer to \<open>actual_response_time\<close>, a DateTime column: for every stored emergency the
  commit raises, the store is what it was and no notification is sent. For the reported
  emergency the status remains ACTIVE and the response time stays empty.
\<close>

theorem resolve_update_is_refused:
  "update_emergency dumps i \<lparr>u_status = RESOLVED, u_notes = n\<rparr> now1 now2 db =
     (case find (\<lambda>e. e_id e = i) (emergencies db) of
        None \<Rightarrow> (Inl (HTTPException 404 (Text ''Emergency not found'')), db)
      | Some em \<Rightarrow> (Inl StatementError, db))
   \<and> update_emergency example_dumps 1 \<lparr>u_status = RESOLVED, u_notes = None\<rparr>
        330000000 330000000 example_store = (Inl StatementError, example_store)
   \<and> map status (emergencies example_store) = [ACTIVE]
   \<and> map actual_response_time (emergencies example_store) = [None]"
proof (intro conjI)
  show "update_emergency dumps i \<lparr>u_status = RESOLVED, u_notes = n\<rparr> now1 now2 db =
     (case find (\<lambda>e. e_id e = i) (emergencies db) of
        None \<Rightarrow> (Inl (HTTPException 404 (Text ''Emergency not found'')), db)
      | Some em \<Rightarrow> (Inl StatementError, db))"
    by (cases "find (\<lambda>e. e_id e = i) (emergencies db)")
       (simp_all add: update_missing update_resolved)
  have f: "find (\<lambda>e. e_id e = 1) (emergencies example_store)
           = Some (hd (emergencies example_store))"
    by (simp add: example_store_value)
  show "update_emergency example_dumps 1 \<lparr>u_status = RESOLVED, u_notes = None\<rparr>
        330000000 330000000 example_store = (Inl StatementError, example_store)"
    by (rule update_resolved [OF f]) simp
qed (simp_all add: example_store_value)

text \<open>
  C4 (as the claim states it, refuted). One subscription to the \<open>emergency\<close> notifications
  is stored; a report publishes the \<open>emergency\<close> event, which is printed, and no
  Notification is created.
\<close>

theorem fanout_counterexample:
  "map s_notification_type (subscriptions example_subscribed) = [''emergency'']
   \<and> stdout (snd (report_emergency example_coordinator example_dumps None
        (Some ''Fire emergency'') None None 1 0 example_subscribed))
       = [''Sending notification to emergency: {...}'']
   \<and> notifications (snd (report_emergency example_coordinator example_dumps None
        (Some ''Fire emergency'') None None 1 0 example_subscribed)) = []"
  by (simp add: example_subscribed_def subscribe_to_notifications_def
      report_emergency_def report_emergency_try_def example_defs
      db_add_def db_commit_def send_notification_def example_dumps_def empty_store_def)

text \<open>
  C4 (amended). \<^verbatim>\<open>send_notification\<close> creates no Notification, whatever subscriptions are
  stored. Where the payload can be serialised it prints the event and returns true; where
  it cannot, it prints the failure and returns false. The notifications, the
  subscriptions, the emergencies and the status updates are what they were, for every
  subscriber, and the notifications are what they were after a report, which publishes
  the \<open>emergency\<close> event. A subscriber without a matching subscription receives none, as
  every subscriber does.
\<close>

theorem publish_creates_no_notification:
  "(dumps data = Inr rendered \<longrightarrow>
      fst (send_notification dumps channel data db) = True
      \<and> stdout (snd (send_notification dumps channel data db))
         = stdout db @ [''Sending notification to '' @ channel @ '': '' @ rendered])
   \<and> (dumps data = Inl err \<longrightarrow>
      fst (send_notification dumps channel data db) = False
      \<and> stdout (snd (send_notification dumps channel data db))
         = stdout db @ [''Failed to send notification: '' @ err])
   \<and> notifications (snd (send_notification dumps channel data db)) = notifications db
   \<and> subscriptions (snd (send_notification dumps channel data db)) = subscriptions db
   \<and> emergencies (snd (send_notification dumps channel data db)) = emergencies db
   \<and> status_updates (snd (send_notification dumps channel data db)) = status_updates db
   \<and> filter (\<lambda>n. n_recipient_id n = subscriber)
        (notifications (snd (send_notification dumps channel data db)))
       = filter (\<lambda>n. n_recipient_id n = subscriber) (notifications db)
   \<and> notifications (snd (report_emergency coord dumps' audio tx lat lon new_id now db))
       = notifications db"
proof (intro conjI impI)
  assume "dumps data = Inr rendered"
  then show "fst (send_notification dumps channel data db) = True"
    and "stdout (snd (send_notification dumps channel data db))
         = stdout db @ [''Sending notification to '' @ channel @ '': '' @ rendered]"
    by (rule send_notification_sent)+
next
  assume "dumps data = Inl err"
  then show "fst (send_notification dumps channel data db) = False"
    and "stdout (snd (send_notification dumps channel data db))
         = stdout db @ [''Failed to send notification: '' @ err]"
    by (rule send_notification_failed)+
qed (simp_all add: send_notification_tables report_tables)

theorem publish_creates_no_notification_witness:
  "map s_notification_type (subscriptions example_subscribed) = [''emergency'']
   \<and> fst (send_notification example_dumps ''emergency''
            (StatusPayload 1 ACTIVE CANCELLED None) example_subscribed) = True
   \<and> stdout (snd (send_notification example_dumps ''emergency''
            (StatusPayload 1 ACTIVE CANCELLED None) example_subscribed))
       = [''Sending notification to emergency: {...}'']
   \<and> notifications (snd (send_notification example_dumps ''emergency''
            (StatusPayload 1 ACTIVE CANCELLED None) example_subscribed)) = []
   \<and> fst (send_notification (\<lambda>data. Inl ''Object is not JSON serializable'') ''emergency''
            (StatusPayload 1 ACTIVE CANCELLED None) example_subscribed) = False
   \<and> stdout (snd (send_notification (\<lambda>data. Inl ''Object is not JSON serializable'')
            ''emergency'' (StatusPayload 1 ACTIVE CANCELLED None) example_subscribed))
       = [''Failed to send notification: Object is not JSON serializable'']"
proof -
  have d1: "example_dumps (StatusPayload 1 ACTIVE CANCELLED None) = Inr ''{...}''"
    by (simp add: example_dumps_def)
  have d2: "(\<lambda>data. Inl ''Object is not JSON serializable'' :: string + string)
              (StatusPayload 1 ACTIVE CANCELLED None) = Inl ''Object is not JSON serializable''"
    by simp
  have s: "map s_notification_type (subscriptions example_subscribed) = [''emergency'']"
    "stdout example_subscribed = []" "notifications example_subscribed = []"
    by (simp_all add: example_subscribed_def subscribe_to_notifications_def empty_store_def)
  note T1 = publish_creates_no_notification
      [where dumps = example_dumps and data = "StatusPayload 1 ACTIVE CANCELLED None"
         and rendered = "''{...}''" and channel = "''emergency''" and db = example_subscribed]
  note T2 = publish_creates_no_notification
      [where dumps = "\<lambda>data. Inl ''Object is not JSON serializable''"
         and data = "StatusPayload 1 ACTIVE CANCELLED None"
         and err = "''Object is not JSON serializable''" and channel = "''emergency''"
         and db = example_subscribed]
  from T1 [THEN conjunct1, rule_format, OF d1]
    T1 [THEN conjunct2, THEN conjunct2, THEN conjunct1]
    T2 [THEN conjunct2, THEN conjunct1, rule_format, OF d2] s
  show ?thesis by simp
qed

end
